theory Spec2Isabelle
  imports Complex_Main
begin

section \<open>JavaScript values, exceptions and the runtime\<close>

text \<open>
  The program is two JavaScript modules. \<^verbatim>\<open>src/iss.js\<close> chains three HTTP lookups with
  callbacks (library \<^verbatim>\<open>request\<close>); \<^verbatim>\<open>src/unnamed/part_000\<close> does the same with promises
  (library \<^verbatim>\<open>request-promise-native\<close>). Neither module holds state: every result is
  determined by what the network answers and by the built-ins \<^verbatim>\<open>JSON.parse\<close> and
  string conversion.

  A value is what \<^verbatim>\<open>JSON.parse\<close> can return, plus \<^verbatim>\<open>undefined\<close> (the value of a missing
  property). Numbers are IEEE doubles in JavaScript; the program never computes with
  them, it only tests them for truthiness and prints them, so the number type is a
  parameter \<open>'n\<close> and both operations are supplied by the runtime. An object is its list
  of own properties, each key once (\<^verbatim>\<open>JSON.parse\<close> keeps the last duplicate).
\<close>

datatype 'n jsval =
    JUndefined
  | JNull
  | JBool bool
  | JNum 'n
  | JStr string
  | JArr "'n jsval list"
  | JObj "(string \<times> 'n jsval) list"

text \<open>
  The exceptions the built-ins used here can throw: \<^verbatim>\<open>JSON.parse\<close> throws a SyntaxError,
  a property read on \<^verbatim>\<open>null\<close> or \<^verbatim>\<open>undefined\<close> and a failed conversion to a primitive
  throw a TypeError.
\<close>

datatype exn = SyntaxError | TypeError

text \<open>
  An error value: what \<^verbatim>\<open>Error(msg)\<close> builds, and what \<^verbatim>\<open>request\<close> hands to its callback
  on a transport failure. It is identified by its message.
\<close>

datatype error = Error string

text \<open>
  What \<^verbatim>\<open>request(url, (error, response, body) => ...)\<close> passes to its callback: an error
  and nothing else, or a response with its status code and its body text.
\<close>

datatype reply = Failed error | Response nat string

text \<open>
  The runtime: the network as seen through \<^verbatim>\<open>request\<close>, \<^verbatim>\<open>JSON.parse\<close> on a string
  (\<open>None\<close> when it throws its SyntaxError), and the two operations on numbers. The
  network is a function of the URL: a run requests at most three URLs, one per service,
  and they differ from their first characters on, so no run asks the same URL twice.
  Strings are lists of characters; the program only compares and concatenates them.
\<close>

record 'n runtime =
  request :: "string \<Rightarrow> reply"
  JSON_parse :: "string \<Rightarrow> 'n jsval option"
  Number_toString :: "'n \<Rightarrow> string"
  Number_ToBoolean :: "'n \<Rightarrow> bool"

subsection \<open>Built-in operations\<close>

text \<open>Decimal digits of a status code, as \<^verbatim>\<open>`${response.statusCode}`\<close> prints it.\<close>

fun show_nat :: "nat \<Rightarrow> string" where
  "show_nat n =
     (if n < 10 then [''0123456789'' ! n]
      else show_nat (n div 10) @ [''0123456789'' ! (n mod 10)])"

declare show_nat.simps [simp del]

text \<open>
  \<^verbatim>\<open>v.k\<close> for the property names this program reads (\<^verbatim>\<open>ip\<close>, \<^verbatim>\<open>success\<close>, \<^verbatim>\<open>message\<close>,
  \<^verbatim>\<open>latitude\<close>, \<^verbatim>\<open>longitude\<close>, \<^verbatim>\<open>response\<close>): none of them is inherited from a prototype, so
  the read gives the own property of an object and \<^verbatim>\<open>undefined\<close> on anything else,
  except that reading from \<^verbatim>\<open>null\<close> or \<^verbatim>\<open>undefined\<close> throws.
\<close>

fun Get :: "'n jsval \<Rightarrow> string \<Rightarrow> exn + 'n jsval" where
  "Get JUndefined k = Inl TypeError"
| "Get JNull k = Inl TypeError"
| "Get (JObj props) k = Inr (case map_of props k of None \<Rightarrow> JUndefined | Some v \<Rightarrow> v)"
| "Get v k = Inr JUndefined"

text \<open>Truthiness, as \<^verbatim>\<open>!parsedBody.success\<close> tests it.\<close>

fun ToBoolean :: "('n \<Rightarrow> bool) \<Rightarrow> 'n jsval \<Rightarrow> bool" where
  "ToBoolean nb JUndefined = False"
| "ToBoolean nb JNull = False"
| "ToBoolean nb (JBool b) = b"
| "ToBoolean nb (JNum n) = nb n"
| "ToBoolean nb (JStr s) = (s \<noteq> [])"
| "ToBoolean nb (JArr xs) = True"
| "ToBoolean nb (JObj props) = True"

text \<open>
  Conversion to a string, as a template literal does it. An array joins the conversions
  of its elements with commas, \<^verbatim>\<open>null\<close> and \<^verbatim>\<open>undefined\<close> elements giving the empty
  string. A plain object prints as \<^verbatim>\<open>[object Object]\<close> through the inherited
  \<^verbatim>\<open>toString\<close>; when it has an own property named \<^verbatim>\<open>toString\<close>, that property is a JSON
  value and not callable, the inherited \<^verbatim>\<open>valueOf\<close> returns the object itself, and the
  conversion throws a TypeError.
\<close>

fun join_commas :: "(exn + string) list \<Rightarrow> exn + string" where
  "join_commas [] = Inr []"
| "join_commas [r] = r"
| "join_commas (r # rs) =
     (case r of Inl x \<Rightarrow> Inl x
      | Inr s \<Rightarrow> (case join_commas rs of Inl x \<Rightarrow> Inl x | Inr t \<Rightarrow> Inr (s @ '','' @ t)))"

fun ToString :: "('n \<Rightarrow> string) \<Rightarrow> 'n jsval \<Rightarrow> exn + string" where
  "ToString ns JUndefined = Inr ''undefined''"
| "ToString ns JNull = Inr ''null''"
| "ToString ns (JBool b) = Inr (if b then ''true'' else ''false'')"
| "ToString ns (JNum n) = Inr (ns n)"
| "ToString ns (JStr s) = Inr s"
| "ToString ns (JArr xs) =
     join_commas (map (\<lambda>x. if x = JUndefined \<or> x = JNull then Inr [] else ToString ns x) xs)"
| "ToString ns (JObj props) =
     (if ''toString'' \<in> fst ` set props then Inl TypeError else Inr ''[object Object]'')"

text \<open>
  A template literal: literal text and substitutions, converted and concatenated from
  left to right; the first conversion that throws ends it.
\<close>

datatype 'n part = Lit string | Sub "'n jsval"

fun template :: "('n \<Rightarrow> string) \<Rightarrow> 'n part list \<Rightarrow> exn + string" where
  "template ns [] = Inr []"
| "template ns (Lit s # ps) =
     (case template ns ps of Inl x \<Rightarrow> Inl x | Inr t \<Rightarrow> Inr (s @ t))"
| "template ns (Sub v # ps) =
     (case ToString ns v of Inl x \<Rightarrow> Inl x
      | Inr s \<Rightarrow> (case template ns ps of Inl x \<Rightarrow> Inl x | Inr t \<Rightarrow> Inr (s @ t)))"

section \<open>The callback implementation (\<^verbatim>\<open>src/iss.js\<close>)\<close>

text \<open>
  A run of one of the four functions ends in one of two ways: its callback is called,
  once, with an error (or \<^verbatim>\<open>null\<close>, here \<open>None\<close>) and a value; or an exception is thrown
  and the callback is never called. An exception thrown inside a \<^verbatim>\<open>request\<close> callback
  has no handler anywhere in the module.

  Every run also leaves a trace: which of the three leaf functions were entered, with
  which arguments, and which URLs were requested, in order.
\<close>

datatype 'n outcome = Callback "error option" "'n jsval" | Throws exn

datatype 'n event = Invoked string "'n jsval list" | Requested string

definition fetchMyIP :: "'n runtime \<Rightarrow> 'n outcome \<times> 'n event list" where
  "fetchMyIP rt =
     (let url = ''https://api.ipify.org?format=json'' in
      (case request rt url of
         Failed error \<Rightarrow> Callback (Some error) JNull
       | Response statusCode body \<Rightarrow>
           if statusCode \<noteq> 200 then
             (let msg = ''Status Code '' @ show_nat statusCode
                        @ '' when fetching IP. Response '' @ body
              in Callback (Some (Error msg)) JNull)
           else
             (case JSON_parse rt body of
                None \<Rightarrow> Throws SyntaxError
              | Some parsed \<Rightarrow>
                  (case Get parsed ''ip'' of
                     Inl x \<Rightarrow> Throws x
                   | Inr ip \<Rightarrow> Callback None ip)),
       [Invoked ''fetchMyIP'' [], Requested url]))"

text \<open>
  Line 46 of \<^verbatim>\<open>src/iss.js\<close>: the message built when the parsed body's \<^verbatim>\<open>success\<close> is falsy.
\<close>

definition coords_failure_msg :: "('n \<Rightarrow> string) \<Rightarrow> 'n jsval \<Rightarrow> 'n jsval \<Rightarrow> 'n jsval \<Rightarrow> exn + string" where
  "coords_failure_msg ns success msg_field ip_field =
     template ns
       [Lit ''It didn't work! Error: Success status was '', Sub success,
        Lit ''. Server message says: '', Sub msg_field,
        Lit '' when fetching for IP '', Sub ip_field]"

text \<open>
  Lines 46, 50 and 51 read further properties of \<^verbatim>\<open>parsedBody\<close> after line 45 has read
  \<^verbatim>\<open>parsedBody.success\<close> without throwing, so \<^verbatim>\<open>parsedBody\<close> is neither \<^verbatim>\<open>null\<close> nor
  \<^verbatim>\<open>undefined\<close> there and these reads cannot throw.
\<close>

definition the_prop :: "'n jsval \<Rightarrow> string \<Rightarrow> 'n jsval" where
  "the_prop v k = (case Get v k of Inl x \<Rightarrow> JUndefined | Inr p \<Rightarrow> p)"

definition fetchCoordsByIp :: "'n runtime \<Rightarrow> 'n jsval \<Rightarrow> 'n outcome \<times> 'n event list" where
  "fetchCoordsByIp rt ip =
     (case template (Number_toString rt) [Lit ''http://ipwho.is/'', Sub ip] of
        Inl x \<Rightarrow> (Throws x, [Invoked ''fetchCoordsByIp'' [ip]])
      | Inr url \<Rightarrow>
         (case request rt url of
            Failed error \<Rightarrow> Callback (Some error) JNull
          | Response statusCode body \<Rightarrow>
              (case JSON_parse rt body of
                 None \<Rightarrow> Throws SyntaxError
               | Some parsedBody \<Rightarrow>
                   (case Get parsedBody ''success'' of
                      Inl x \<Rightarrow> Throws x
                    | Inr success \<Rightarrow>
                        if \<not> ToBoolean (Number_ToBoolean rt) success then
                          (case coords_failure_msg (Number_toString rt) success
                                  (the_prop parsedBody ''message'') (the_prop parsedBody ''ip'') of
                             Inl x \<Rightarrow> Throws x
                           | Inr msg \<Rightarrow> Callback (Some (Error msg)) JNull)
                        else
                          (let longitude = the_prop parsedBody ''longitude'';
                               latitude = the_prop parsedBody ''latitude'';
                               geoLocation = JObj [(''latitude'', latitude), (''longitude'', longitude)]
                           in Callback None geoLocation))),
          [Invoked ''fetchCoordsByIp'' [ip], Requested url]))"

text \<open>
  Line 73: the URL reads \<^verbatim>\<open>coords.latitude\<close> and \<^verbatim>\<open>coords.longitude\<close>; both reads throw
  when \<^verbatim>\<open>coords\<close> is \<^verbatim>\<open>null\<close> or \<^verbatim>\<open>undefined\<close>, before any request is made.
\<close>

definition flyover_url :: "('n \<Rightarrow> string) \<Rightarrow> 'n jsval \<Rightarrow> exn + string" where
  "flyover_url ns coords =
     (case Get coords ''latitude'' of
        Inl x \<Rightarrow> Inl x
      | Inr latitude \<Rightarrow>
         (case Get coords ''longitude'' of
            Inl x \<Rightarrow> Inl x
          | Inr longitude \<Rightarrow>
              template ns [Lit ''https://iss-flyover.herokuapp.com/json/?lat='', Sub latitude,
                           Lit ''&lon='', Sub longitude]))"

text \<open>Line 81: the one message of \<^verbatim>\<open>fetchISSFlyOverTimes\<close>, quoting the body and the status code.\<close>

definition invalid_coordinates_msg :: "string \<Rightarrow> nat \<Rightarrow> string" where
  "invalid_coordinates_msg body statusCode =
     ''You have entered invalid coordinates '' @ body
     @ '', with status code '' @ show_nat statusCode"

definition fetchISSFlyOverTimes :: "'n runtime \<Rightarrow> 'n jsval \<Rightarrow> 'n outcome \<times> 'n event list" where
  "fetchISSFlyOverTimes rt coords =
     (case flyover_url (Number_toString rt) coords of
        Inl x \<Rightarrow> (Throws x, [Invoked ''fetchISSFlyOverTimes'' [coords]])
      | Inr url \<Rightarrow>
         (case request rt url of
            Failed error \<Rightarrow> Callback (Some error) JNull
          | Response statusCode body \<Rightarrow>
              if body = ''invalid coordinates'' \<or> statusCode \<noteq> 200 then
                (let msg = invalid_coordinates_msg body statusCode
                 in Callback (Some (Error msg)) JNull)
              else
                (case JSON_parse rt body of
                   None \<Rightarrow> Throws SyntaxError
                 | Some parsedBody \<Rightarrow>
                     (case Get parsedBody ''response'' of
                        Inl x \<Rightarrow> Throws x
                      | Inr fliesOver \<Rightarrow> Callback None fliesOver)),
          [Invoked ''fetchISSFlyOverTimes'' [coords], Requested url]))"

text \<open>
  Lines 100 to 120. Each nested callback tests \<^verbatim>\<open>if (error)\<close>: an error value is an
  object and so truthy, \<^verbatim>\<open>null\<close> is not. An exception thrown by a leaf unwinds through
  the enclosing callbacks, none of which catches it.
\<close>

definition nextISSTimesForMyLocation :: "'n runtime \<Rightarrow> 'n outcome \<times> 'n event list" where
  "nextISSTimesForMyLocation rt =
     (case fetchMyIP rt of
        (Throws x, t1) \<Rightarrow> (Throws x, t1)
      | (Callback (Some error) ip, t1) \<Rightarrow> (Callback (Some error) JNull, t1)
      | (Callback None ip, t1) \<Rightarrow>
         (case fetchCoordsByIp rt ip of
            (Throws x, t2) \<Rightarrow> (Throws x, t1 @ t2)
          | (Callback (Some error) location, t2) \<Rightarrow> (Callback (Some error) JNull, t1 @ t2)
          | (Callback None location, t2) \<Rightarrow>
             (case fetchISSFlyOverTimes rt location of
                (Throws x, t3) \<Rightarrow> (Throws x, t1 @ t2 @ t3)
              | (Callback (Some error) flyOver, t3) \<Rightarrow> (Callback (Some error) JNull, t1 @ t2 @ t3)
              | (Callback None flyOver, t3) \<Rightarrow> (Callback None flyOver, t1 @ t2 @ t3))))"

section \<open>The promise implementation (\<^verbatim>\<open>src/unnamed/part_000\<close>)\<close>

text \<open>
  \<^verbatim>\<open>request-promise-native\<close> wraps the same \<^verbatim>\<open>request\<close>: the promise is rejected with a
  RequestError on a transport failure and, with the library's default options, with a
  StatusCodeError unless the status code printed in decimal starts with the digit 2;
  otherwise it is fulfilled with the body text. A \<^verbatim>\<open>then\<close> handler that throws rejects
  the promise it returns with the exception.
\<close>

datatype reason = RequestError error | StatusCodeError nat string | Raised exn

datatype 'a settled = Fulfilled 'a | Rejected reason

definition is2xx :: "nat \<Rightarrow> bool" where
  "is2xx statusCode = (take 1 (show_nat statusCode) = ''2'')"

definition request_promise :: "'n runtime \<Rightarrow> string \<Rightarrow> string settled" where
  "request_promise rt url =
     (case request rt url of
        Failed error \<Rightarrow> Rejected (RequestError error)
      | Response statusCode body \<Rightarrow>
          if is2xx statusCode then Fulfilled body
          else Rejected (StatusCodeError statusCode body))"

definition then_promise :: "'a settled \<Rightarrow> ('a \<Rightarrow> 'b settled) \<Rightarrow> 'b settled" where
  "then_promise p f = (case p of Fulfilled v \<Rightarrow> f v | Rejected r \<Rightarrow> Rejected r)"

definition fetchMyIP_promise :: "'n runtime \<Rightarrow> string settled" where
  "fetchMyIP_promise rt = request_promise rt ''https://api.ipify.org?format=json''"

definition fetchCoordsByIP :: "'n runtime \<Rightarrow> string \<Rightarrow> string settled" where
  "fetchCoordsByIP rt body =
     (case JSON_parse rt body of
        None \<Rightarrow> Rejected (Raised SyntaxError)
      | Some parsed \<Rightarrow>
         (case Get parsed ''ip'' of
            Inl x \<Rightarrow> Rejected (Raised x)
          | Inr ip \<Rightarrow>
             (case template (Number_toString rt) [Lit ''http://ipwho.is/'', Sub ip] of
                Inl x \<Rightarrow> Rejected (Raised x)
              | Inr url \<Rightarrow> request_promise rt url)))"

definition fetchISSFlyOverTimes_promise :: "'n runtime \<Rightarrow> string \<Rightarrow> string settled" where
  "fetchISSFlyOverTimes_promise rt body =
     (case JSON_parse rt body of
        None \<Rightarrow> Rejected (Raised SyntaxError)
      | Some parsed \<Rightarrow>
         (case flyover_url (Number_toString rt) parsed of
            Inl x \<Rightarrow> Rejected (Raised x)
          | Inr url \<Rightarrow> request_promise rt url))"

definition nextISSTimesForMyLocation_promise :: "'n runtime \<Rightarrow> 'n jsval settled" where
  "nextISSTimesForMyLocation_promise rt =
     then_promise
       (then_promise
          (then_promise (fetchMyIP_promise rt) (fetchCoordsByIP rt))
          (fetchISSFlyOverTimes_promise rt))
       (\<lambda>data.
          case JSON_parse rt data of
            None \<Rightarrow> Rejected (Raised SyntaxError)
          | Some parsed \<Rightarrow>
             (case Get parsed ''response'' of
                Inl x \<Rightarrow> Rejected (Raised x)
              | Inr response \<Rightarrow> Fulfilled response))"

section \<open>Concrete runtimes\<close>

text \<open>
  Runtimes on which the functions are evaluated below. Numbers are rationals here, printed
  by a table that covers the numbers of the bodies; \<^verbatim>\<open>JSON.parse\<close> is a table on the
  bodies that occur, and throws on every other text (none of the others is JSON). The
  network answers three URLs, the address service, the geolocation service asked about
  \<^verbatim>\<open>162.245.144.188\<close> and the pass service asked about latitude 38.91 and longitude
  -77.04, and fails on any other.
\<close>

definition example_toString :: "rat \<Rightarrow> string" where
  "example_toString q =
     (if q = 3891 / 100 then ''38.91''
      else if q = - (7704 / 100) then ''-77.04''
      else if q = 134564234 then ''134564234''
      else if q = 600 then ''600''
      else if q = 1 then ''1''
      else ''0'')"

definition example_parse :: "string \<Rightarrow> rat jsval option" where
  \<open>example_parse s =
     (if s = ''{"ip":"162.245.144.188"}'' then
        Some (JObj [(''ip'', JStr ''162.245.144.188'')])
      else if s = ''{"success":true,"latitude":38.91,"longitude":-77.04}'' then
        Some (JObj [(''success'', JBool True), (''latitude'', JNum (3891 / 100)),
                    (''longitude'', JNum (- (7704 / 100)))])
      else if s = ''{"response":[{"risetime":134564234,"duration":600}]}'' then
        Some (JObj [(''response'',
                     JArr [JObj [(''risetime'', JNum 134564234), (''duration'', JNum 600)]])])
      else if s = ''{"success":false,"message":"invalid ip"}'' then
        Some (JObj [(''success'', JBool False), (''message'', JStr ''invalid ip'')])
      else if s = ''{"success":false,"message":"invalid ip","ip":{"toString":1}}'' then
        Some (JObj [(''success'', JBool False), (''message'', JStr ''invalid ip''),
                    (''ip'', JObj [(''toString'', JNum 1)])])
      else if s = ''{"ip":null}'' then Some (JObj [(''ip'', JNull)])
      else if s = ''{}'' then Some (JObj [])
      else None)\<close>

definition example_request :: "reply \<Rightarrow> reply \<Rightarrow> reply \<Rightarrow> string \<Rightarrow> reply" where
  "example_request r1 r2 r3 url =
     (if url = ''https://api.ipify.org?format=json'' then r1
      else if url = ''http://ipwho.is/162.245.144.188'' then r2
      else if url = ''https://iss-flyover.herokuapp.com/json/?lat=38.91&lon=-77.04'' then r3
      else Failed (Error ''getaddrinfo ENOTFOUND''))"

definition example_runtime :: "reply \<Rightarrow> reply \<Rightarrow> reply \<Rightarrow> rat runtime" where
  "example_runtime r1 r2 r3 =
     \<lparr> request = example_request r1 r2 r3, JSON_parse = example_parse,
       Number_toString = example_toString, Number_ToBoolean = (\<lambda>q. q \<noteq> 0) \<rparr>"

definition ip_reply :: reply where
  \<open>ip_reply = Response 200 ''{"ip":"162.245.144.188"}''\<close>

definition coords_reply :: reply where
  \<open>coords_reply = Response 200 ''{"success":true,"latitude":38.91,"longitude":-77.04}''\<close>

definition passes_reply :: reply where
  \<open>passes_reply = Response 200 ''{"response":[{"risetime":134564234,"duration":600}]}''\<close>

definition unreachable :: reply where
  "unreachable = Failed (Error ''connect ECONNREFUSED'')"

text \<open>The scenario of the specification, every service answering as it should.\<close>

definition scenario :: "rat runtime" where
  "scenario = example_runtime ip_reply coords_reply passes_reply"

text \<open>No service can be reached.\<close>

definition offline :: "rat runtime" where
  "offline = example_runtime unreachable unreachable unreachable"

text \<open>The geolocation service reports a failure, with and without an odd \<^verbatim>\<open>ip\<close> field.\<close>

definition invalid_ip :: "rat runtime" where
  \<open>invalid_ip =
     example_runtime ip_reply (Response 200 ''{"success":false,"message":"invalid ip"}'')
       passes_reply\<close>

definition invalid_ip_odd :: "rat runtime" where
  \<open>invalid_ip_odd =
     example_runtime ip_reply
       (Response 200 ''{"success":false,"message":"invalid ip","ip":{"toString":1}}'')
       passes_reply\<close>



text \<open>The geolocation service answers with status 404 and a body that reports success.\<close>

definition coords_404 :: "rat runtime" where
  \<open>coords_404 =
     example_runtime ip_reply
       (Response 404 ''{"success":true,"latitude":38.91,"longitude":-77.04}'') passes_reply\<close>

text \<open>The pass service rejects the coordinates, or fails with status 500.\<close>

definition invalid_coordinates :: "rat runtime" where
  "invalid_coordinates =
     example_runtime ip_reply coords_reply (Response 200 ''invalid coordinates'')"

definition server_error :: "rat runtime" where
  "server_error =
     example_runtime ip_reply coords_reply (Response 500 ''Internal Server Error'')"

text \<open>The address service answers with status 200 and a body that holds no address.\<close>

definition ip_not_json :: "rat runtime" where
  "ip_not_json =
     example_runtime (Response 200 ''<html>Bad Gateway</html>'') coords_reply passes_reply"

definition ip_empty_object :: "rat runtime" where
  "ip_empty_object = example_runtime (Response 200 ''{}'') coords_reply passes_reply"

definition ip_null :: "rat runtime" where
  \<open>ip_null = example_runtime (Response 200 ''{"ip":null}'') coords_reply passes_reply\<close>

definition washington :: "rat jsval" where
  "washington = JObj [(''latitude'', JNum (3891 / 100)), (''longitude'', JNum (- (7704 / 100)))]"

definition pass_list :: "rat jsval" where
  "pass_list = JArr [JObj [(''risetime'', JNum 134564234), (''duration'', JNum 600)]]"

section \<open>Properties of the model\<close>

subsection \<open>The orchestrator, case by case\<close>

text \<open>
  What \<^verbatim>\<open>nextISSTimesForMyLocation\<close> does for each way a leaf can end, the characterisation
  of a successful run of each leaf, and the evaluation of the leaves on the scenario.
\<close>

lemma fetchMyIP_trace:
  "snd (fetchMyIP rt) = [Invoked ''fetchMyIP'' [], Requested ''https://api.ipify.org?format=json'']"
  by (simp add: fetchMyIP_def Let_def)

lemma ip_throws:
  "fst (fetchMyIP rt) = Throws x \<Longrightarrow>
   nextISSTimesForMyLocation rt = (Throws x, snd (fetchMyIP rt))"
  by (cases "fetchMyIP rt") (simp add: nextISSTimesForMyLocation_def)

lemma ip_error:
  "fst (fetchMyIP rt) = Callback (Some e) v \<Longrightarrow>
   nextISSTimesForMyLocation rt = (Callback (Some e) JNull, snd (fetchMyIP rt))"
  by (cases "fetchMyIP rt") (simp add: nextISSTimesForMyLocation_def)

lemma coords_throws:
  "fst (fetchMyIP rt) = Callback None ip \<Longrightarrow> fst (fetchCoordsByIp rt ip) = Throws x \<Longrightarrow>
   nextISSTimesForMyLocation rt = (Throws x, snd (fetchMyIP rt) @ snd (fetchCoordsByIp rt ip))"
  by (cases "fetchMyIP rt"; cases "fetchCoordsByIp rt ip") (simp add: nextISSTimesForMyLocation_def)

lemma coords_error:
  "fst (fetchMyIP rt) = Callback None ip \<Longrightarrow> fst (fetchCoordsByIp rt ip) = Callback (Some e) v \<Longrightarrow>
   nextISSTimesForMyLocation rt =
     (Callback (Some e) JNull, snd (fetchMyIP rt) @ snd (fetchCoordsByIp rt ip))"
  by (cases "fetchMyIP rt"; cases "fetchCoordsByIp rt ip") (simp add: nextISSTimesForMyLocation_def)

lemma flyover_throws:
  "fst (fetchMyIP rt) = Callback None ip \<Longrightarrow> fst (fetchCoordsByIp rt ip) = Callback None location \<Longrightarrow>
   fst (fetchISSFlyOverTimes rt location) = Throws x \<Longrightarrow>
   nextISSTimesForMyLocation rt =
     (Throws x, snd (fetchMyIP rt) @ snd (fetchCoordsByIp rt ip) @ snd (fetchISSFlyOverTimes rt location))"
  by (cases "fetchMyIP rt"; cases "fetchCoordsByIp rt ip"; cases "fetchISSFlyOverTimes rt location")
     (simp add: nextISSTimesForMyLocation_def)

lemma flyover_error:
  "fst (fetchMyIP rt) = Callback None ip \<Longrightarrow> fst (fetchCoordsByIp rt ip) = Callback None location \<Longrightarrow>
   fst (fetchISSFlyOverTimes rt location) = Callback (Some e) v \<Longrightarrow>
   nextISSTimesForMyLocation rt =
     (Callback (Some e) JNull,
      snd (fetchMyIP rt) @ snd (fetchCoordsByIp rt ip) @ snd (fetchISSFlyOverTimes rt location))"
  by (cases "fetchMyIP rt"; cases "fetchCoordsByIp rt ip"; cases "fetchISSFlyOverTimes rt location")
     (simp add: nextISSTimesForMyLocation_def)

lemma flyover_ok:
  "fst (fetchMyIP rt) = Callback None ip \<Longrightarrow> fst (fetchCoordsByIp rt ip) = Callback None location \<Longrightarrow>
   fst (fetchISSFlyOverTimes rt location) = Callback None flyOver \<Longrightarrow>
   nextISSTimesForMyLocation rt =
     (Callback None flyOver,
      snd (fetchMyIP rt) @ snd (fetchCoordsByIp rt ip) @ snd (fetchISSFlyOverTimes rt location))"
  by (cases "fetchMyIP rt"; cases "fetchCoordsByIp rt ip"; cases "fetchISSFlyOverTimes rt location")
     (simp add: nextISSTimesForMyLocation_def)

lemma outcome_cases:
  obtains x where "out = Throws x" | e v where "out = Callback (Some e) v" | v where "out = Callback None v"
  by (cases out) (metis option.exhaust, simp)

lemma success_only_if:
  assumes "fst (nextISSTimesForMyLocation rt) = Callback None passes"
  shows "\<exists>ip location. fst (fetchMyIP rt) = Callback None ip
           \<and> fst (fetchCoordsByIp rt ip) = Callback None location
           \<and> fst (fetchISSFlyOverTimes rt location) = Callback None passes"
proof (cases "fst (fetchMyIP rt)" rule: outcome_cases)
  case (1 x) with assms show ?thesis by (simp add: ip_throws)
next
  case (2 e v) with assms show ?thesis by (simp add: ip_error)
next
  case ip: (3 ip)
  show ?thesis
  proof (cases "fst (fetchCoordsByIp rt ip)" rule: outcome_cases)
    case (1 x) with assms ip show ?thesis by (simp add: coords_throws)
  next
    case (2 e v) with assms ip show ?thesis by (simp add: coords_error)
  next
    case loc: (3 location)
    show ?thesis
    proof (cases "fst (fetchISSFlyOverTimes rt location)" rule: outcome_cases)
      case (1 x) with assms ip loc show ?thesis by (simp add: flyover_throws)
    next
      case (2 e v) with assms ip loc show ?thesis by (simp add: flyover_error)
    next
      case (3 v) with assms ip loc show ?thesis by (simp add: flyover_ok)
    qed
  qed
qed


lemma fetchCoordsByIp_trace:
  "fst (fetchCoordsByIp rt ip) = Callback e v \<Longrightarrow>
   \<exists>url. template (Number_toString rt) [Lit ''http://ipwho.is/'', Sub ip] = Inr url
         \<and> snd (fetchCoordsByIp rt ip) = [Invoked ''fetchCoordsByIp'' [ip], Requested url]"
  by (auto simp: fetchCoordsByIp_def split: sum.splits)

lemma fetchISSFlyOverTimes_trace:
  "fst (fetchISSFlyOverTimes rt coords) = Callback e v \<Longrightarrow>
   \<exists>url. flyover_url (Number_toString rt) coords = Inr url
         \<and> snd (fetchISSFlyOverTimes rt coords) = [Invoked ''fetchISSFlyOverTimes'' [coords], Requested url]"
  by (auto simp: fetchISSFlyOverTimes_def split: sum.splits)

lemma Get_the_prop: "Get v k = Inr p \<Longrightarrow> Get v k' = Inr (the_prop v k')"
  by (cases v) (simp_all add: the_prop_def)




subsection \<open>The promise chain after a successful callback chain\<close>

lemma is2xx_200: "is2xx 200"
  by (simp add: is2xx_def show_nat.simps)





lemmas example_defs = example_runtime_def example_request_def example_parse_def example_toString_def
  ip_reply_def coords_reply_def passes_reply_def unreachable_def

lemma scenario_fetchMyIP: "fst (fetchMyIP scenario) = Callback None (JStr ''162.245.144.188'')"
  by (simp add: fetchMyIP_def scenario_def example_defs)

lemma scenario_fetchCoordsByIp:
  "fst (fetchCoordsByIp scenario (JStr ''162.245.144.188'')) = Callback None washington"
  by (simp add: fetchCoordsByIp_def the_prop_def washington_def scenario_def example_defs)

lemma scenario_fetchISSFlyOverTimes:
  "fst (fetchISSFlyOverTimes scenario washington) = Callback None pass_list"
  by (simp add: fetchISSFlyOverTimes_def flyover_url_def washington_def pass_list_def scenario_def
      example_defs)

subsection \<open>Where a leaf leaves the callback protocol\<close>

text \<open>
  On a status 200 answer \<^verbatim>\<open>fetchMyIP\<close> has no path that passes an error to its callback:
  lines 24 and 25 parse the body and read \<^verbatim>\<open>ip\<close> with no check, so the run throws or calls
  back with whatever the read gave.
\<close>

lemma fetchMyIP_status_200:
  assumes "request rt ''https://api.ipify.org?format=json'' = Response 200 body"
  shows "(JSON_parse rt body = None \<longrightarrow> fst (fetchMyIP rt) = Throws SyntaxError)
       \<and> (JSON_parse rt body = Some JNull \<longrightarrow> fst (fetchMyIP rt) = Throws TypeError)
       \<and> (\<forall>parsed. JSON_parse rt body = Some parsed \<and> Get parsed ''ip'' = Inr JUndefined \<longrightarrow>
             fst (fetchMyIP rt) = Callback None JUndefined)
       \<and> (\<forall>e v. fst (fetchMyIP rt) \<noteq> Callback (Some e) v)"
  by (auto simp: fetchMyIP_def assms split: option.splits sum.splits)

text \<open>
  What does hold of every callback: an error never comes with a result.
\<close>

lemma callback_error_has_null_result:
  "(\<forall>e v. fst (fetchMyIP rt) = Callback (Some e) v \<longrightarrow> v = JNull)
   \<and> (\<forall>e v. fst (fetchCoordsByIp rt ip) = Callback (Some e) v \<longrightarrow> v = JNull)
   \<and> (\<forall>e v. fst (fetchISSFlyOverTimes rt coords) = Callback (Some e) v \<longrightarrow> v = JNull)
   \<and> (\<forall>e v. fst (nextISSTimesForMyLocation rt) = Callback (Some e) v \<longrightarrow> v = JNull)"
proof (intro conjI allI impI)
  fix e v assume "fst (fetchMyIP rt) = Callback (Some e) v"
  then show "v = JNull"
    by (auto simp: fetchMyIP_def Let_def split: reply.splits if_splits option.splits sum.splits)
next
  fix e v assume "fst (fetchCoordsByIp rt ip) = Callback (Some e) v"
  then show "v = JNull"
    unfolding fetchCoordsByIp_def
    by (auto simp: Let_def split: reply.splits if_splits option.splits sum.splits)
next
  fix e v assume "fst (fetchISSFlyOverTimes rt coords) = Callback (Some e) v"
  then show "v = JNull"
    unfolding fetchISSFlyOverTimes_def
    by (auto simp: Let_def split: reply.splits if_splits option.splits sum.splits)
next
  fix e v assume run: "fst (nextISSTimesForMyLocation rt) = Callback (Some e) v"
  show "v = JNull"
  proof (cases "fst (fetchMyIP rt)" rule: outcome_cases)
    case (1 x) with run show ?thesis by (simp add: ip_throws)
  next
    case (2 e' v') with run show ?thesis by (simp add: ip_error)
  next
    case a: (3 ip')
    show ?thesis
    proof (cases "fst (fetchCoordsByIp rt ip')" rule: outcome_cases)
      case (1 x) with run a show ?thesis by (simp add: coords_throws)
    next
      case (2 e' v') with run a show ?thesis by (simp add: coords_error)
    next
      case b: (3 location)
      show ?thesis
      proof (cases "fst (fetchISSFlyOverTimes rt location)" rule: outcome_cases)
        case (1 x) with run a b show ?thesis by (simp add: flyover_throws)
      next
        case (2 e' v') with run a b show ?thesis by (simp add: flyover_error)
      next
        case (3 flyOver) with run a b show ?thesis by (simp add: flyover_ok)
      qed
    qed
  qed
qed

text \<open>
  Line 46 converts fields of the body to strings before line 47 calls the callback. When
  a conversion throws, here on an \<^verbatim>\<open>ip\<close> field that is an object with a member
  \<^verbatim>\<open>toString\<close>, the callback is not called.
\<close>

lemma geo_failure_message_throws:
  \<open>request invalid_ip_odd ''http://ipwho.is/162.245.144.188'' =
      Response 200 ''{"success":false,"message":"invalid ip","ip":{"toString":1}}''
   \<and> JSON_parse invalid_ip_odd ''{"success":false,"message":"invalid ip","ip":{"toString":1}}'' =
      Some (JObj [(''success'', JBool False), (''message'', JStr ''invalid ip''),
                  (''ip'', JObj [(''toString'', JNum 1)])])
   \<and> fst (fetchMyIP invalid_ip_odd) = Callback None (JStr ''162.245.144.188'')
   \<and> fst (nextISSTimesForMyLocation invalid_ip_odd) = Throws TypeError\<close>
  by (simp add: nextISSTimesForMyLocation_def fetchMyIP_def fetchCoordsByIp_def
      coords_failure_msg_def the_prop_def invalid_ip_odd_def example_defs)

subsection \<open>The claims\<close>

text \<open>
  C1. The orchestrator calls \<^verbatim>\<open>fetchMyIP\<close>, then \<^verbatim>\<open>fetchCoordsByIp\<close> on the address it got,
  then \<^verbatim>\<open>fetchISSFlyOverTimes\<close> on the coordinates it got. It calls back with a null error
  and the pass list exactly when all three leaves call back with a null error, and then
  its trace is the three invocations in that order, each followed by its request. When a
  leaf calls back with an error, the orchestrator calls back with that same error and
  \<^verbatim>\<open>null\<close>, and its trace ends with that leaf. (A leaf that throws reports no error; the
  lemmas \<open>ip_throws\<close>, \<open>coords_throws\<close> and \<open>flyover_throws\<close> say what happens then.)
\<close>

theorem nextISSTimesForMyLocation_chain:
  "(fst (nextISSTimesForMyLocation rt) = Callback None passes \<longleftrightarrow>
      (\<exists>ip location.
          fst (fetchMyIP rt) = Callback None ip
        \<and> fst (fetchCoordsByIp rt ip) = Callback None location
        \<and> fst (fetchISSFlyOverTimes rt location) = Callback None passes))
   \<and> (\<forall>ip location.
          fst (fetchMyIP rt) = Callback None ip
        \<and> fst (fetchCoordsByIp rt ip) = Callback None location
        \<and> fst (fetchISSFlyOverTimes rt location) = Callback None passes \<longrightarrow>
          (\<exists>url2 url3. snd (nextISSTimesForMyLocation rt) =
             [Invoked ''fetchMyIP'' [], Requested ''https://api.ipify.org?format=json'',
              Invoked ''fetchCoordsByIp'' [ip], Requested url2,
              Invoked ''fetchISSFlyOverTimes'' [location], Requested url3]))
   \<and> (\<forall>e v. fst (fetchMyIP rt) = Callback (Some e) v \<longrightarrow>
          nextISSTimesForMyLocation rt = (Callback (Some e) JNull, snd (fetchMyIP rt)))
   \<and> (\<forall>ip e v.
          fst (fetchMyIP rt) = Callback None ip
        \<and> fst (fetchCoordsByIp rt ip) = Callback (Some e) v \<longrightarrow>
          nextISSTimesForMyLocation rt =
            (Callback (Some e) JNull, snd (fetchMyIP rt) @ snd (fetchCoordsByIp rt ip)))
   \<and> (\<forall>ip location e v.
          fst (fetchMyIP rt) = Callback None ip
        \<and> fst (fetchCoordsByIp rt ip) = Callback None location
        \<and> fst (fetchISSFlyOverTimes rt location) = Callback (Some e) v \<longrightarrow>
          nextISSTimesForMyLocation rt =
            (Callback (Some e) JNull,
             snd (fetchMyIP rt) @ snd (fetchCoordsByIp rt ip)
             @ snd (fetchISSFlyOverTimes rt location)))"
proof (intro conjI allI impI iffI)
  assume "fst (nextISSTimesForMyLocation rt) = Callback None passes"
  then show "\<exists>ip location.
          fst (fetchMyIP rt) = Callback None ip
        \<and> fst (fetchCoordsByIp rt ip) = Callback None location
        \<and> fst (fetchISSFlyOverTimes rt location) = Callback None passes"
    by (rule success_only_if)
next
  assume "\<exists>ip location.
          fst (fetchMyIP rt) = Callback None ip
        \<and> fst (fetchCoordsByIp rt ip) = Callback None location
        \<and> fst (fetchISSFlyOverTimes rt location) = Callback None passes"
  then show "fst (nextISSTimesForMyLocation rt) = Callback None passes"
    by (auto simp: flyover_ok)
next
  fix ip location
  assume all: "fst (fetchMyIP rt) = Callback None ip
        \<and> fst (fetchCoordsByIp rt ip) = Callback None location
        \<and> fst (fetchISSFlyOverTimes rt location) = Callback None passes"
  then have run: "snd (nextISSTimesForMyLocation rt) =
      snd (fetchMyIP rt) @ snd (fetchCoordsByIp rt ip) @ snd (fetchISSFlyOverTimes rt location)"
    by (simp add: flyover_ok)
  from all fetchCoordsByIp_trace obtain url2 where
    t2: "snd (fetchCoordsByIp rt ip) = [Invoked ''fetchCoordsByIp'' [ip], Requested url2]"
    by blast
  from all fetchISSFlyOverTimes_trace obtain url3 where
    t3: "snd (fetchISSFlyOverTimes rt location) =
           [Invoked ''fetchISSFlyOverTimes'' [location], Requested url3]"
    by blast
  show "\<exists>url2 url3. snd (nextISSTimesForMyLocation rt) =
             [Invoked ''fetchMyIP'' [], Requested ''https://api.ipify.org?format=json'',
              Invoked ''fetchCoordsByIp'' [ip], Requested url2,
              Invoked ''fetchISSFlyOverTimes'' [location], Requested url3]"
    by (simp add: run fetchMyIP_trace t2 t3)
next
  fix e v assume "fst (fetchMyIP rt) = Callback (Some e) v"
  then show "nextISSTimesForMyLocation rt = (Callback (Some e) JNull, snd (fetchMyIP rt))"
    by (rule ip_error)
next
  fix ip e v
  assume "fst (fetchMyIP rt) = Callback None ip
        \<and> fst (fetchCoordsByIp rt ip) = Callback (Some e) v"
  then show "nextISSTimesForMyLocation rt =
            (Callback (Some e) JNull, snd (fetchMyIP rt) @ snd (fetchCoordsByIp rt ip))"
    by (simp add: coords_error)
next
  fix ip location e v
  assume "fst (fetchMyIP rt) = Callback None ip
        \<and> fst (fetchCoordsByIp rt ip) = Callback None location
        \<and> fst (fetchISSFlyOverTimes rt location) = Callback (Some e) v"
  then show "nextISSTimesForMyLocation rt =
            (Callback (Some e) JNull,
             snd (fetchMyIP rt) @ snd (fetchCoordsByIp rt ip)
             @ snd (fetchISSFlyOverTimes rt location))"
    by (simp add: flyover_error)
qed

theorem nextISSTimesForMyLocation_chain_witness:
  "fst (nextISSTimesForMyLocation scenario) = Callback None pass_list
   \<and> nextISSTimesForMyLocation offline =
       (Callback (Some (Error ''connect ECONNREFUSED'')) JNull,
        [Invoked ''fetchMyIP'' [], Requested ''https://api.ipify.org?format=json''])
   \<and> fst (nextISSTimesForMyLocation invalid_ip) =
       Callback (Some (Error ''It didn't work! Error: Success status was false. Server message says: invalid ip when fetching for IP undefined'')) JNull
   \<and> fst (nextISSTimesForMyLocation invalid_coordinates) =
       Callback (Some (Error ''You have entered invalid coordinates invalid coordinates, with status code 200'')) JNull"
proof -
  have "fst (nextISSTimesForMyLocation scenario) = Callback None pass_list"
    using nextISSTimesForMyLocation_chain [of scenario pass_list]
      scenario_fetchMyIP scenario_fetchCoordsByIp scenario_fetchISSFlyOverTimes
    by blast
  moreover
  have "fst (fetchMyIP offline) = Callback (Some (Error ''connect ECONNREFUSED'')) JNull"
    by (simp add: fetchMyIP_def offline_def example_defs)
  with nextISSTimesForMyLocation_chain [of offline pass_list]
  have "nextISSTimesForMyLocation offline =
       (Callback (Some (Error ''connect ECONNREFUSED'')) JNull,
        [Invoked ''fetchMyIP'' [], Requested ''https://api.ipify.org?format=json''])"
    by (simp add: fetchMyIP_trace)
  moreover
  have "fst (fetchMyIP invalid_ip) = Callback None (JStr ''162.245.144.188'')"
    by (simp add: fetchMyIP_def invalid_ip_def example_defs)
  moreover
  have "fst (fetchCoordsByIp invalid_ip (JStr ''162.245.144.188'')) =
          Callback (Some (Error ''It didn't work! Error: Success status was false. Server message says: invalid ip when fetching for IP undefined'')) JNull"
    by (simp add: fetchCoordsByIp_def coords_failure_msg_def the_prop_def invalid_ip_def example_defs)
  ultimately
  have "fst (nextISSTimesForMyLocation scenario) = Callback None pass_list
   \<and> nextISSTimesForMyLocation offline =
       (Callback (Some (Error ''connect ECONNREFUSED'')) JNull,
        [Invoked ''fetchMyIP'' [], Requested ''https://api.ipify.org?format=json''])
   \<and> fst (nextISSTimesForMyLocation invalid_ip) =
       Callback (Some (Error ''It didn't work! Error: Success status was false. Server message says: invalid ip when fetching for IP undefined'')) JNull"
    using nextISSTimesForMyLocation_chain [of invalid_ip pass_list] by simp
  moreover
  have "fst (fetchMyIP invalid_coordinates) = Callback None (JStr ''162.245.144.188'')"
    by (simp add: fetchMyIP_def invalid_coordinates_def example_defs)
  moreover
  have "fst (fetchCoordsByIp invalid_coordinates (JStr ''162.245.144.188'')) = Callback None washington"
    by (simp add: fetchCoordsByIp_def the_prop_def washington_def invalid_coordinates_def example_defs)
  moreover
  have "fst (fetchISSFlyOverTimes invalid_coordinates washington) =
          Callback (Some (Error ''You have entered invalid coordinates invalid coordinates, with status code 200'')) JNull"
    by (simp add: fetchISSFlyOverTimes_def flyover_url_def invalid_coordinates_msg_def show_nat.simps
        washington_def invalid_coordinates_def example_defs)
  ultimately show ?thesis
    using nextISSTimesForMyLocation_chain [of invalid_coordinates pass_list] by simp
qed

text \<open>
  C2. The scenario of the specification: the address service answers status 200 with the
  body \<^verbatim>\<open>{"ip":"162.245.144.188"}\<close>; the geolocation service, asked about that address,
  answers \<^verbatim>\<open>{"success":true,"latitude":38.91,"longitude":-77.04}\<close>; the pass service, asked
  about the coordinates that print as 38.91 and -77.04, answers status 200 with the body
  \<^verbatim>\<open>{"response":[{"risetime":134564234,"duration":600}]}\<close>. With \<^verbatim>\<open>JSON.parse\<close> reading the
  three bodies as written, the callback implementation calls back with a null error and the
  list of that one pass, and the promise implementation is fulfilled with the same list
  when the status of the geolocation answer is a 2xx.
\<close>

theorem scenario_yields_pass_list:
  assumes \<open>request rt ''https://api.ipify.org?format=json'' =
             Response 200 ''{"ip":"162.245.144.188"}''\<close>
    and \<open>JSON_parse rt ''{"ip":"162.245.144.188"}'' =
             Some (JObj [(''ip'', JStr ''162.245.144.188'')])\<close>
    and \<open>request rt ''http://ipwho.is/162.245.144.188'' =
             Response status ''{"success":true,"latitude":38.91,"longitude":-77.04}''\<close>
    and \<open>JSON_parse rt ''{"success":true,"latitude":38.91,"longitude":-77.04}'' =
             Some (JObj [(''success'', JBool True), (''latitude'', JNum lat),
                         (''longitude'', JNum lon)])\<close>
    and \<open>Number_toString rt lat = ''38.91''\<close>
    and \<open>Number_toString rt lon = ''-77.04''\<close>
    and \<open>request rt ''https://iss-flyover.herokuapp.com/json/?lat=38.91&lon=-77.04'' =
             Response 200 ''{"response":[{"risetime":134564234,"duration":600}]}''\<close>
    and \<open>JSON_parse rt ''{"response":[{"risetime":134564234,"duration":600}]}'' =
             Some (JObj [(''response'',
                          JArr [JObj [(''risetime'', JNum risetime), (''duration'', JNum duration)]])])\<close>
  shows \<open>nextISSTimesForMyLocation rt =
           (Callback None (JArr [JObj [(''risetime'', JNum risetime), (''duration'', JNum duration)]]),
            [Invoked ''fetchMyIP'' [],
             Requested ''https://api.ipify.org?format=json'',
             Invoked ''fetchCoordsByIp'' [JStr ''162.245.144.188''],
             Requested ''http://ipwho.is/162.245.144.188'',
             Invoked ''fetchISSFlyOverTimes''
               [JObj [(''latitude'', JNum lat), (''longitude'', JNum lon)]],
             Requested ''https://iss-flyover.herokuapp.com/json/?lat=38.91&lon=-77.04''])
         \<and> (is2xx status \<longrightarrow>
              nextISSTimesForMyLocation_promise rt =
                Fulfilled (JArr [JObj [(''risetime'', JNum risetime), (''duration'', JNum duration)]]))\<close>
proof
  have ip: "fetchMyIP rt =
      (Callback None (JStr ''162.245.144.188''),
       [Invoked ''fetchMyIP'' [], Requested ''https://api.ipify.org?format=json''])"
    by (simp add: fetchMyIP_def assms(1,2))
  have loc: "fetchCoordsByIp rt (JStr ''162.245.144.188'') =
      (Callback None (JObj [(''latitude'', JNum lat), (''longitude'', JNum lon)]),
       [Invoked ''fetchCoordsByIp'' [JStr ''162.245.144.188''],
        Requested ''http://ipwho.is/162.245.144.188''])"
    by (simp add: fetchCoordsByIp_def the_prop_def assms(3,4))
  have fly: "fetchISSFlyOverTimes rt (JObj [(''latitude'', JNum lat), (''longitude'', JNum lon)]) =
      (Callback None (JArr [JObj [(''risetime'', JNum risetime), (''duration'', JNum duration)]]),
       [Invoked ''fetchISSFlyOverTimes'' [JObj [(''latitude'', JNum lat), (''longitude'', JNum lon)]],
        Requested ''https://iss-flyover.herokuapp.com/json/?lat=38.91&lon=-77.04''])"
    by (simp add: fetchISSFlyOverTimes_def flyover_url_def assms(5-8))
  show run: \<open>nextISSTimesForMyLocation rt =
           (Callback None (JArr [JObj [(''risetime'', JNum risetime), (''duration'', JNum duration)]]),
            [Invoked ''fetchMyIP'' [],
             Requested ''https://api.ipify.org?format=json'',
             Invoked ''fetchCoordsByIp'' [JStr ''162.245.144.188''],
             Requested ''http://ipwho.is/162.245.144.188'',
             Invoked ''fetchISSFlyOverTimes''
               [JObj [(''latitude'', JNum lat), (''longitude'', JNum lon)]],
             Requested ''https://iss-flyover.herokuapp.com/json/?lat=38.91&lon=-77.04''])\<close>
    by (simp add: nextISSTimesForMyLocation_def ip loc fly)
  show \<open>is2xx status \<longrightarrow>
          nextISSTimesForMyLocation_promise rt =
            Fulfilled (JArr [JObj [(''risetime'', JNum risetime), (''duration'', JNum duration)]])\<close>
  proof
    assume ok: "is2xx status"
    have first: \<open>fetchMyIP_promise rt = Fulfilled ''{"ip":"162.245.144.188"}''\<close>
      by (simp add: fetchMyIP_promise_def request_promise_def assms(1) is2xx_200)
    have second: \<open>fetchCoordsByIP rt ''{"ip":"162.245.144.188"}'' =
        Fulfilled ''{"success":true,"latitude":38.91,"longitude":-77.04}''\<close>
      by (simp add: fetchCoordsByIP_def request_promise_def assms(2,3) ok)
    have third: \<open>fetchISSFlyOverTimes_promise rt ''{"success":true,"latitude":38.91,"longitude":-77.04}'' =
        Fulfilled ''{"response":[{"risetime":134564234,"duration":600}]}''\<close>
      by (simp add: fetchISSFlyOverTimes_promise_def request_promise_def flyover_url_def
          assms(4-7) is2xx_200)
    show \<open>nextISSTimesForMyLocation_promise rt =
            Fulfilled (JArr [JObj [(''risetime'', JNum risetime), (''duration'', JNum duration)]])\<close>
      by (simp add: nextISSTimesForMyLocation_promise_def then_promise_def first second third assms(8))
  qed
qed

theorem scenario_yields_pass_list_witness:
  \<open>nextISSTimesForMyLocation scenario =
     (Callback None (JArr [JObj [(''risetime'', JNum 134564234), (''duration'', JNum 600)]]),
      [Invoked ''fetchMyIP'' [],
       Requested ''https://api.ipify.org?format=json'',
       Invoked ''fetchCoordsByIp'' [JStr ''162.245.144.188''],
       Requested ''http://ipwho.is/162.245.144.188'',
       Invoked ''fetchISSFlyOverTimes''
         [JObj [(''latitude'', JNum (3891 / 100)), (''longitude'', JNum (- (7704 / 100)))]],
       Requested ''https://iss-flyover.herokuapp.com/json/?lat=38.91&lon=-77.04''])
   \<and> nextISSTimesForMyLocation_promise scenario =
       Fulfilled (JArr [JObj [(''risetime'', JNum 134564234), (''duration'', JNum 600)]])\<close>
proof -
  have r1: \<open>request scenario ''https://api.ipify.org?format=json'' =
               Response 200 ''{"ip":"162.245.144.188"}''\<close>
    and p1: \<open>JSON_parse scenario ''{"ip":"162.245.144.188"}'' =
               Some (JObj [(''ip'', JStr ''162.245.144.188'')])\<close>
    and r2: \<open>request scenario ''http://ipwho.is/162.245.144.188'' =
               Response 200 ''{"success":true,"latitude":38.91,"longitude":-77.04}''\<close>
    and p2: \<open>JSON_parse scenario ''{"success":true,"latitude":38.91,"longitude":-77.04}'' =
               Some (JObj [(''success'', JBool True), (''latitude'', JNum (3891 / 100)),
                           (''longitude'', JNum (- (7704 / 100)))])\<close>
    and n1: \<open>Number_toString scenario (3891 / 100) = ''38.91''\<close>
    and n2: \<open>Number_toString scenario (- (7704 / 100)) = ''-77.04''\<close>
    and r3: \<open>request scenario ''https://iss-flyover.herokuapp.com/json/?lat=38.91&lon=-77.04'' =
               Response 200 ''{"response":[{"risetime":134564234,"duration":600}]}''\<close>
    and p3: \<open>JSON_parse scenario ''{"response":[{"risetime":134564234,"duration":600}]}'' =
               Some (JObj [(''response'',
                            JArr [JObj [(''risetime'', JNum 134564234), (''duration'', JNum 600)]])])\<close>
    by (simp_all add: scenario_def example_defs)
  from scenario_yields_pass_list [OF r1 p1 r2 p2 n1 n2 r3 p3] is2xx_200
  show ?thesis by simp
qed

text \<open>
  C3. When \<^verbatim>\<open>fetchMyIP\<close> does not succeed, because it reports an error or because it
  throws, the run of the orchestrator consists of the invocation of \<^verbatim>\<open>fetchMyIP\<close> and its
  one request: \<^verbatim>\<open>fetchCoordsByIp\<close> and \<^verbatim>\<open>fetchISSFlyOverTimes\<close> are not invoked, with any
  arguments.
\<close>

theorem address_failure_stops_chain:
  assumes "\<forall>ip. fst (fetchMyIP rt) \<noteq> Callback None ip"
  shows "snd (nextISSTimesForMyLocation rt) =
           [Invoked ''fetchMyIP'' [], Requested ''https://api.ipify.org?format=json'']
         \<and> (\<forall>args. Invoked ''fetchCoordsByIp'' args \<notin> set (snd (nextISSTimesForMyLocation rt)))
         \<and> (\<forall>args. Invoked ''fetchISSFlyOverTimes'' args \<notin> set (snd (nextISSTimesForMyLocation rt)))"
proof -
  have "snd (nextISSTimesForMyLocation rt) = snd (fetchMyIP rt)"
  proof (cases "fst (fetchMyIP rt)" rule: outcome_cases)
    case (1 x) then show ?thesis by (simp add: ip_throws)
  next
    case (2 e v) then show ?thesis by (simp add: ip_error)
  next
    case (3 v) with assms show ?thesis by simp
  qed
  then show ?thesis by (simp add: fetchMyIP_trace)
qed

theorem address_failure_stops_chain_witness:
  "(\<forall>ip. fst (fetchMyIP offline) \<noteq> Callback None ip)
   \<and> snd (nextISSTimesForMyLocation offline) =
       [Invoked ''fetchMyIP'' [], Requested ''https://api.ipify.org?format=json'']
   \<and> (\<forall>args. Invoked ''fetchCoordsByIp'' args \<notin> set (snd (nextISSTimesForMyLocation offline)))
   \<and> (\<forall>args. Invoked ''fetchISSFlyOverTimes'' args \<notin> set (snd (nextISSTimesForMyLocation offline)))"
proof -
  have failed: "\<forall>ip. fst (fetchMyIP offline) \<noteq> Callback None ip"
    by (simp add: fetchMyIP_def offline_def example_defs)
  from failed address_failure_stops_chain [OF failed] show ?thesis by blast
qed




text \<open>
  C5. When the first two leaves have succeeded and the pass service answers the request
  for the coordinates with the body \<^verbatim>\<open>invalid coordinates\<close>, whatever the status code, the
  orchestrator calls back with \<^verbatim>\<open>null\<close> as result and the error that reports invalid
  coordinates.
\<close>

theorem invalid_coordinates_body_fails:
  assumes "fst (fetchMyIP rt) = Callback None ip"
    and "fst (fetchCoordsByIp rt ip) = Callback None location"
    and "flyover_url (Number_toString rt) location = Inr url"
    and "request rt url = Response status ''invalid coordinates''"
  shows "fst (nextISSTimesForMyLocation rt) =
           Callback (Some (Error (''You have entered invalid coordinates invalid coordinates''
                                  @ '', with status code '' @ show_nat status))) JNull"
proof -
  have "fst (fetchISSFlyOverTimes rt location) =
          Callback (Some (Error (''You have entered invalid coordinates invalid coordinates''
                                 @ '', with status code '' @ show_nat status))) JNull"
    by (simp add: fetchISSFlyOverTimes_def invalid_coordinates_msg_def assms(3,4))
  with assms(1,2) show ?thesis by (simp add: flyover_error)
qed

theorem invalid_coordinates_body_fails_witness:
  "fst (nextISSTimesForMyLocation invalid_coordinates) =
     Callback (Some (Error ''You have entered invalid coordinates invalid coordinates, with status code 200'')) JNull"
proof -
  have a: "fst (fetchMyIP invalid_coordinates) = Callback None (JStr ''162.245.144.188'')"
    by (simp add: fetchMyIP_def invalid_coordinates_def example_defs)
  have b: "fst (fetchCoordsByIp invalid_coordinates (JStr ''162.245.144.188'')) = Callback None washington"
    by (simp add: fetchCoordsByIp_def the_prop_def washington_def invalid_coordinates_def example_defs)
  have c: "flyover_url (Number_toString invalid_coordinates) washington =
             Inr ''https://iss-flyover.herokuapp.com/json/?lat=38.91&lon=-77.04''"
    by (simp add: flyover_url_def washington_def invalid_coordinates_def example_defs)
  have d: "request invalid_coordinates ''https://iss-flyover.herokuapp.com/json/?lat=38.91&lon=-77.04''
             = Response 200 ''invalid coordinates''"
    by (simp add: invalid_coordinates_def example_defs)
  from invalid_coordinates_body_fails [OF a b c d] show ?thesis
    by (simp add: show_nat.simps)
qed

text \<open>
  C6. On a status 200 answer with a malformed body the callback of \<^verbatim>\<open>fetchMyIP\<close> should
  receive an error, as the function's own comment says (an error, or the address as a
  string). The code run on two such bodies does not do so: on a body that is not JSON it
  throws the SyntaxError of \<^verbatim>\<open>JSON.parse\<close> and never calls back, and on the body \<^verbatim>\<open>{}\<close> it calls
  back with a null error and \<^verbatim>\<open>undefined\<close> as the address.
\<close>

theorem fetchMyIP_malformed_body_no_error:
  "fst (fetchMyIP ip_not_json) = Throws SyntaxError
   \<and> fst (fetchMyIP ip_empty_object) = Callback None JUndefined"
  by (simp add: fetchMyIP_def ip_not_json_def ip_empty_object_def example_defs)

text \<open>
  C7, as amended. \<^verbatim>\<open>fetchISSFlyOverTimes\<close> has one error for the two causes: when the status
  code is not 200, whatever the body, and when the body is \<^verbatim>\<open>invalid coordinates\<close>,
  whatever the status code, it calls back with \<^verbatim>\<open>null\<close> as result and the error whose
  message reports invalid coordinates and quotes the body and the status code.
\<close>

theorem fetchISSFlyOverTimes_single_error:
  assumes "flyover_url (Number_toString rt) coords = Inr url"
    and "request rt url = Response status body"
    and "body = ''invalid coordinates'' \<or> status \<noteq> 200"
  shows "fst (fetchISSFlyOverTimes rt coords) =
           Callback (Some (Error (''You have entered invalid coordinates '' @ body
                                  @ '', with status code '' @ show_nat status))) JNull"
  using assms(3) by (auto simp: fetchISSFlyOverTimes_def invalid_coordinates_msg_def assms(1,2))

theorem fetchISSFlyOverTimes_single_error_witness:
  "fst (fetchISSFlyOverTimes server_error washington) =
     Callback (Some (Error (''You have entered invalid coordinates '' @ ''Internal Server Error''
                            @ '', with status code '' @ show_nat 500))) JNull
   \<and> fst (fetchISSFlyOverTimes invalid_coordinates washington) =
     Callback (Some (Error (''You have entered invalid coordinates '' @ ''invalid coordinates''
                            @ '', with status code '' @ show_nat 200))) JNull"
proof -
  have u1: "flyover_url (Number_toString server_error) washington =
              Inr ''https://iss-flyover.herokuapp.com/json/?lat=38.91&lon=-77.04''"
    and u2: "flyover_url (Number_toString invalid_coordinates) washington =
              Inr ''https://iss-flyover.herokuapp.com/json/?lat=38.91&lon=-77.04''"
    by (simp_all add: flyover_url_def washington_def server_error_def invalid_coordinates_def
        example_defs)
  have r1: "request server_error ''https://iss-flyover.herokuapp.com/json/?lat=38.91&lon=-77.04''
              = Response 500 ''Internal Server Error''"
    and r2: "request invalid_coordinates ''https://iss-flyover.herokuapp.com/json/?lat=38.91&lon=-77.04''
              = Response 200 ''invalid coordinates''"
    by (simp_all add: server_error_def invalid_coordinates_def example_defs)
  have c1: "''Internal Server Error'' = ''invalid coordinates'' \<or> (500::nat) \<noteq> 200"
    and c2: "''invalid coordinates'' = ''invalid coordinates'' \<or> (200::nat) \<noteq> 200"
    by simp_all
  from fetchISSFlyOverTimes_single_error [OF u1 r1 c1]
       fetchISSFlyOverTimes_single_error [OF u2 r2 c2]
  show ?thesis by blast
qed

text \<open>
  A status 500 answer whose body is not \<^verbatim>\<open>invalid coordinates\<close> gives the error that reports
  invalid coordinates, not an error of another kind.
\<close>

theorem status_error_reports_invalid_coordinates_counterexample:
  "fst (fetchISSFlyOverTimes server_error washington) =
     Callback (Some (Error ''You have entered invalid coordinates Internal Server Error, with status code 500'')) JNull"
  by (simp add: fetchISSFlyOverTimes_def flyover_url_def invalid_coordinates_msg_def show_nat.simps
      washington_def server_error_def example_defs)

text \<open>
  C8. Every callback should receive either an error with a null result or a null error
  with a result, as the comments of the functions say. The code run on two answers
  of the address service does not do so: on the status 200 body \<^verbatim>\<open>{"ip":null}\<close> the callback
  of \<^verbatim>\<open>fetchMyIP\<close> receives a null error and a null result, and on a status 200 body that is
  not JSON the orchestrator throws and its callback receives nothing.
\<close>

theorem callback_protocol_broken:
  "fst (fetchMyIP ip_null) = Callback None JNull
   \<and> fst (nextISSTimesForMyLocation ip_not_json) = Throws SyntaxError"
  by (simp add: nextISSTimesForMyLocation_def fetchMyIP_def ip_null_def ip_not_json_def example_defs)



text \<open>
  C10. \<^verbatim>\<open>fetchCoordsByIp\<close> does not look at the status code: whenever the geolocation
  service answers at all and the parsed body has a truthy \<^verbatim>\<open>success\<close>, it calls back with a
  null error and the object made of the body's \<^verbatim>\<open>latitude\<close> and \<^verbatim>\<open>longitude\<close>, for every
  status code.
\<close>

theorem fetchCoordsByIp_ignores_status:
  assumes "template (Number_toString rt) [Lit ''http://ipwho.is/'', Sub ip] = Inr url"
    and "request rt url = Response status body"
    and "JSON_parse rt body = Some parsedBody"
    and "Get parsedBody ''success'' = Inr success"
    and "ToBoolean (Number_ToBoolean rt) success"
  shows "\<exists>latitude longitude.
           Get parsedBody ''latitude'' = Inr latitude
         \<and> Get parsedBody ''longitude'' = Inr longitude
         \<and> fst (fetchCoordsByIp rt ip) =
             Callback None (JObj [(''latitude'', latitude), (''longitude'', longitude)])"
proof -
  have "fst (fetchCoordsByIp rt ip) =
          Callback None (JObj [(''latitude'', the_prop parsedBody ''latitude''),
                               (''longitude'', the_prop parsedBody ''longitude'')])"
    using assms(1) by (simp add: fetchCoordsByIp_def assms(2-5))
  with Get_the_prop [OF assms(4)] show ?thesis by blast
qed

theorem fetchCoordsByIp_ignores_status_witness:
  "fst (fetchCoordsByIp coords_404 (JStr ''162.245.144.188'')) =
     Callback None (JObj [(''latitude'', JNum (3891 / 100)), (''longitude'', JNum (- (7704 / 100)))])"
proof -
  let ?body = "JObj [(''success'', JBool True), (''latitude'', JNum (3891 / 100)),
                     (''longitude'', JNum (- (7704 / 100)))] :: rat jsval"
  have a: "template (Number_toString coords_404) [Lit ''http://ipwho.is/'', Sub (JStr ''162.245.144.188'')]
             = Inr ''http://ipwho.is/162.245.144.188''"
    by simp
  have b: \<open>request coords_404 ''http://ipwho.is/162.245.144.188'' =
             Response 404 ''{"success":true,"latitude":38.91,"longitude":-77.04}''\<close>
    and c: \<open>JSON_parse coords_404 ''{"success":true,"latitude":38.91,"longitude":-77.04}'' = Some ?body\<close>
    by (simp_all add: coords_404_def example_defs)
  have d: "Get ?body ''success'' = Inr (JBool True)"
    and e: "ToBoolean (Number_ToBoolean coords_404) (JBool True)"
    by simp_all
  from fetchCoordsByIp_ignores_status [OF a b c d e] show ?thesis by simp
qed

end
